theory Spec2Isabelle
  imports Main "HOL-Library.Word"
begin

section \<open>Data model (internal/model)\<close>

text \<open>
  Instants are \<open>time.Time\<close> wall-clock readings, modelled as the (unbounded) number of
  nanoseconds since Go's zero time; the zero \<open>time.Time\<close> is \<open>0\<close>.
  A \<open>time.Duration\<close> is an \<open>int64\<close> count of nanoseconds and a Go \<open>int\<close> on a 64-bit
  build target is 64 bits wide: both are \<open>64 word\<close>, read signed with \<open>sint\<close>,
  so that \<open>*\<close> and \<open>+\<close> wrap as they do in Go.
  \<open>SendStatus\<close> is a Go string type; its two constants are the strings below, and
  every other string is a possible field value as well (the file is user-editable).
  Pointers to notifications are assumed non-nil: a JSON \<open>null\<close> in the place of the
  document or of a list element is outside this model.
\<close>

type_synonym time = int
type_synonym duration = "64 word"
type_synonym goint = "64 word"

definition StatusPending :: string where
  "StatusPending = ''Pending''"

definition StatusDone :: string where
  "StatusDone = ''Done''"

record notification =
  ID :: string
  Content :: string
  ScheduledTime :: time
  Status :: string
  SendsCount :: goint
  LastPushTime :: time
  RepeatTimes :: goint
  RepeatInterval :: string

text \<open>
  The \<open>Settings\<close> struct has fields \<open>RepeatTimes\<close> and \<open>RepeatInterval\<close> too; as record
  fields share one name space they carry the prefix \<open>Default\<close> here.
\<close>

record settings =
  PushoverToken :: string
  PushoverUser :: string
  DefaultRepeatTimes :: goint
  DefaultRepeatInterval :: string
  Password :: string

record app_schema =
  Settings :: settings
  Notifications :: "notification list"

section \<open>The parts of package time that the code uses\<close>

definition Minute :: duration where
  "Minute = 60000000000"

definition IsZero :: "time \<Rightarrow> bool" where
  "IsZero t = (t = 0)"

definition Before :: "time \<Rightarrow> time \<Rightarrow> bool" where
  "Before t u = (t < u)"

definition After :: "time \<Rightarrow> time \<Rightarrow> bool" where
  "After t u = (t > u)"

definition Add :: "time \<Rightarrow> duration \<Rightarrow> time" where
  "Add t d = t + sint d"

text \<open>\<open>t.Truncate(d)\<close> rounds down to a multiple of \<open>d\<close> since the zero time, and returns
  \<open>t\<close> itself when \<open>d \<le> 0\<close>.\<close>

definition Truncate :: "time \<Rightarrow> duration \<Rightarrow> time" where
  "Truncate t d = (if sint d \<le> 0 then t else t - t mod sint d)"

text \<open>\<open>t.Sub(u)\<close> saturates at the largest and smallest \<open>Duration\<close>.\<close>

definition Sub :: "time \<Rightarrow> time \<Rightarrow> duration" where
  "Sub t u =
     (if t - u > 2 ^ 63 - 1 then word_of_int (2 ^ 63 - 1)
      else if t - u < - (2 ^ 63) then word_of_int (- (2 ^ 63))
      else word_of_int (t - u))"

section \<open>The scheduling engine (internal/worker)\<close>

subsection \<open>The wake channel and Refresh\<close>

text \<open>
  \<open>updateChan\<close> is \<open>make(chan struct{}, 1)\<close>: its elements carry no data, so the state of
  the buffer is the number of signals waiting in it. A send that finds the buffer full and
  a receive that finds it empty block: they are \<open>None\<close>.
\<close>

type_synonym chan = nat

definition chanCap :: nat where
  "chanCap = 1"

definition chanSend :: "chan \<Rightarrow> chan option" where
  "chanSend c = (if c < chanCap then Some (Suc c) else None)"

definition chanRecv :: "chan \<Rightarrow> chan option" where
  "chanRecv c = (case c of 0 \<Rightarrow> None | Suc c' \<Rightarrow> Some c')"

text \<open>\<open>Refresh\<close> is a \<open>select\<close> of the send with a \<open>default\<close> branch that does nothing.\<close>

definition Refresh :: "chan \<Rightarrow> chan" where
  "Refresh c = (case chanSend c of Some c' \<Rightarrow> c' | None \<Rightarrow> c)"

text \<open>
  In \<open>Start\<close>, the branch \<open>case <-w.updateChan\<close> of the \<open>select\<close> takes one signal and goes
  round the loop once more. \<open>wakeups c\<close> counts the rounds that the signals waiting in
  the buffer pay for (no timer armed, no shutdown) before the \<open>select\<close> blocks.
\<close>

fun wakeups :: "chan \<Rightarrow> nat" where
  "wakeups 0 = 0"
| "wakeups (Suc c) = Suc (wakeups c)"

subsection \<open>checkAndProcess: one notification\<close>

text \<open>
  \<open>time.ParseDuration\<close> is library code: the engine takes it as the parameter \<open>pd\<close>,
  \<open>None\<close> for a string it rejects. The Delivery Port (\<open>client.SendMessage\<close>) is the
  parameter \<open>port\<close>: \<open>port i\<close> says whether the call made for the \<open>i\<close>-th element of
  \<open>pending\<close> succeeds.
\<close>

definition repeatInterval :: "(string \<Rightarrow> duration option) \<Rightarrow> notification \<Rightarrow> duration" where
  "repeatInterval pd n =
     (case pd (RepeatInterval n) of None \<Rightarrow> 30 * Minute | Some d \<Rightarrow> d)"

definition repeatTimes :: "notification \<Rightarrow> goint" where
  "repeatTimes n = (if RepeatTimes n = 0 then 3 else RepeatTimes n)"

definition nextSendTime :: "(string \<Rightarrow> duration option) \<Rightarrow> notification \<Rightarrow> time" where
  "nextSendTime pd n =
     (if SendsCount n = 0 then Truncate (ScheduledTime n) Minute
      else Add (Truncate (ScheduledTime n) Minute) (repeatInterval pd n * SendsCount n))"

text \<open>
  The loop's running state: \<open>earliestNext\<close>, \<open>saveNeeded\<close>, and the calls of
  \<open>SendMessage\<close> made so far (the index in \<open>pending\<close> and the message).
\<close>

record acc =
  earliestNext :: time
  saveNeeded :: bool
  sent :: "(nat \<times> string) list"

definition loopBody ::
  "(string \<Rightarrow> duration option) \<Rightarrow> (nat \<Rightarrow> bool) \<Rightarrow> time \<Rightarrow> nat \<Rightarrow> notification \<Rightarrow> acc
     \<Rightarrow> notification \<times> acc" where
  "loopBody pd port now i n a =
     (if \<not> Before now (nextSendTime pd n) then
        (let (n1, a1) =
               (if SendsCount n <s repeatTimes n then
                  (if \<not> port i
                   then (n\<lparr>LastPushTime := now\<rparr>,
                         a\<lparr>saveNeeded := True, sent := sent a @ [(i, Content n)]\<rparr>)
                   else (n\<lparr>SendsCount := SendsCount n + 1, LastPushTime := now\<rparr>,
                         a\<lparr>saveNeeded := True, sent := sent a @ [(i, Content n)]\<rparr>))
                else (n, a))
         in if repeatTimes n \<le>s SendsCount n1
            then (n1\<lparr>Status := StatusDone\<rparr>, a1\<lparr>saveNeeded := True\<rparr>)
            else (let nextForThis = Add (Truncate (ScheduledTime n1) Minute)
                                        (repeatInterval pd n * SendsCount n1)
                  in (n1, if IsZero (earliestNext a1) \<or> Before nextForThis (earliestNext a1)
                          then a1\<lparr>earliestNext := nextForThis\<rparr> else a1)))
      else (n, if IsZero (earliestNext a) \<or> Before (nextSendTime pd n) (earliestNext a)
               then a\<lparr>earliestNext := nextSendTime pd n\<rparr> else a))"

text \<open>\<open>for _, n := range pending\<close>; the records are updated through their pointers.\<close>

fun forPending ::
  "(string \<Rightarrow> duration option) \<Rightarrow> (nat \<Rightarrow> bool) \<Rightarrow> time \<Rightarrow> nat \<Rightarrow> notification list \<Rightarrow> acc
     \<Rightarrow> notification list \<times> acc" where
  "forPending pd port now i [] a = ([], a)"
| "forPending pd port now i (n # ns) a =
     (let (n', a') = loopBody pd port now i n a;
          (ns', a'') = forPending pd port now (Suc i) ns a'
      in (n' # ns', a''))"

text \<open>
  \<open>pending\<close> holds pointers to those records of \<open>s.Data.Notifications\<close> whose status is
  not \<open>Done\<close>, in order. What the loop wrote through them is what the store's list holds
  afterwards: the \<open>k\<close>-th record that was pending is the \<open>k\<close>-th element of the updated
  \<open>pending\<close>, and every other record is as it was.
\<close>

fun writeBack :: "notification list \<Rightarrow> notification list \<Rightarrow> notification list" where
  "writeBack [] us = []"
| "writeBack (n # ns) us =
     (if Status n \<noteq> StatusDone
      then (case us of [] \<Rightarrow> n # writeBack ns [] | u # us' \<Rightarrow> u # writeBack ns us')
      else n # writeBack ns us)"

text \<open>The index in \<open>pending\<close> of the record at position \<open>j\<close> of the store's list.\<close>

definition pendingIndex :: "notification list \<Rightarrow> nat \<Rightarrow> nat" where
  "pendingIndex ns j = length (filter (\<lambda>n. Status n \<noteq> StatusDone) (take j ns))"

subsection \<open>The timer of Start\<close>

text \<open>
  What \<open>Start\<close> does with the timer after a pass: \<open>None\<close> is the stopped timer (the loop
  idles until a signal), \<open>Some d\<close> is \<open>timer.Reset(d)\<close>.
\<close>

definition timerDuration :: "time \<Rightarrow> time \<Rightarrow> duration option" where
  "timerDuration nextRun now =
     (if IsZero nextRun then None
      else (let duration = Sub nextRun now
            in Some (if duration <s 0 then 0 else duration)))"

section \<open>The persistent store (internal/storage)\<close>

text \<open>
  The backing file as the store sees it: absent; present but not readable (\<open>os.Stat\<close>
  succeeds, \<open>os.ReadFile\<close> fails with an error other than not-exist); or present with a
  modification time and contents.
\<close>

datatype backing_file = NoFile | Unreadable time | File time string

datatype error = ReadFailed | UnmarshalFailed | MarshalFailed | WriteFailed | NotFound

text \<open>
  \<open>encoding/json\<close> is library code and enters as parameters.
  \<open>UnmarshalSchema data old\<close> is \<open>json.Unmarshal(data, &s.Data)\<close> with \<open>old\<close> the schema
  that \<open>s.Data\<close> points to before the call (the decoder fills the existing value, so keys
  that the document leaves out keep what \<open>old\<close> had): \<open>Inr\<close> the decoded schema, or
  \<open>Inl\<close> for an error, with the schema as the failed call left it.
  \<open>UnmarshalList data\<close> decodes into the fresh \<open>oldNotifs\<close>.
  The encoder \<open>enc\<close> is \<open>json.MarshalIndent\<close>, \<open>None\<close> when it returns an error.
\<close>

record decoders =
  UnmarshalSchema :: "string \<Rightarrow> app_schema \<Rightarrow> app_schema + app_schema"
  UnmarshalList :: "string \<Rightarrow> notification list option"

record Store =
  Data :: app_schema
  lastLoadedTime :: time

text \<open>The store together with the file at \<open>filePath\<close>.\<close>

record world =
  store :: Store
  disk :: backing_file

definition emptySettings :: settings where
  "emptySettings =
     \<lparr>PushoverToken = [], PushoverUser = [], DefaultRepeatTimes = 0,
      DefaultRepeatInterval = [], Password = []\<rparr>"

text \<open>\<open>model.Settings{RepeatTimes: 3, RepeatInterval: "30m"}\<close>\<close>

definition defaultSettings :: settings where
  "defaultSettings =
     emptySettings\<lparr>DefaultRepeatTimes := 3, DefaultRepeatInterval := ''30m''\<rparr>"

definition NewStore :: Store where
  "NewStore =
     \<lparr>Data = \<lparr>Settings = emptySettings, Notifications = []\<rparr>, lastLoadedTime = 0\<rparr>"

definition Stat :: "backing_file \<Rightarrow> time option" where
  "Stat f = (case f of NoFile \<Rightarrow> None | Unreadable mt \<Rightarrow> Some mt | File mt data \<Rightarrow> Some mt)"

text \<open>\<open>os.ReadFile\<close>: the contents, or an error, which is \<open>os.IsNotExist\<close> or not.\<close>

definition ReadFile :: "backing_file \<Rightarrow> bool + string" where
  "ReadFile f =
     (case f of NoFile \<Rightarrow> Inl True | Unreadable mt \<Rightarrow> Inl False | File mt data \<Rightarrow> Inr data)"

text \<open>Load, "Set defaults": the settings of the decoded schema.\<close>

definition setDefaults :: "app_schema \<Rightarrow> app_schema" where
  "setDefaults d =
     (let d1 = (if DefaultRepeatTimes (Settings d) = 0
                then d\<lparr>Settings := (Settings d)\<lparr>DefaultRepeatTimes := 3\<rparr>\<rparr> else d);
          d2 = (if DefaultRepeatInterval (Settings d1) = []
                then d1\<lparr>Settings := (Settings d1)\<lparr>DefaultRepeatInterval := ''30m''\<rparr>\<rparr> else d1)
      in d2)"

text \<open>Load, "Migration/Defaults for legacy data": the loop over the notifications.\<close>

definition migrate :: "app_schema \<Rightarrow> app_schema" where
  "migrate d =
     (let globalRepeatTimes =
            (if DefaultRepeatTimes (Settings d) = 0 then 3 else DefaultRepeatTimes (Settings d));
          globalRepeatInterval =
            (if DefaultRepeatInterval (Settings d) = [] then ''30m''
             else DefaultRepeatInterval (Settings d))
      in d\<lparr>Notifications :=
             map (\<lambda>n. let n1 = (if RepeatTimes n = 0
                                then n\<lparr>RepeatTimes := globalRepeatTimes\<rparr> else n)
                       in if RepeatInterval n1 = []
                          then n1\<lparr>RepeatInterval := globalRepeatInterval\<rparr> else n1)
                 (Notifications d)\<rparr>)"

text \<open>\<open>Load\<close> returns its error, \<open>None\<close> for \<open>nil\<close>, and leaves the store as the second
  component says.\<close>

definition Load :: "decoders \<Rightarrow> backing_file \<Rightarrow> Store \<Rightarrow> error option \<times> Store" where
  "Load dec f s =
     (let s1 = (case Stat f of Some mt \<Rightarrow> s\<lparr>lastLoadedTime := mt\<rparr> | None \<Rightarrow> s)
      in case ReadFile f of
           Inl notExist \<Rightarrow>
             if notExist
             then (None, s1\<lparr>Data := \<lparr>Settings = defaultSettings, Notifications = []\<rparr>\<rparr>)
             else (Some ReadFailed, s1)
         | Inr data \<Rightarrow>
             if length data = 0
             then (None, s1\<lparr>Data := \<lparr>Settings = defaultSettings, Notifications = []\<rparr>\<rparr>)
             else (case UnmarshalSchema dec data (Data s1) of
                     Inl partial \<Rightarrow>
                       (case UnmarshalList dec data of
                          Some oldNotifs \<Rightarrow>
                            (None, s1\<lparr>Data := \<lparr>Settings = defaultSettings,
                                               Notifications = oldNotifs\<rparr>\<rparr>)
                        | None \<Rightarrow> (Some UnmarshalFailed, s1\<lparr>Data := partial\<rparr>))
                   | Inr d \<Rightarrow> (None, s1\<lparr>Data := migrate (setDefaults d)\<rparr>)))"

text \<open>
  \<open>Save\<close>. The parameter \<open>wr\<close> is what the operating system makes of \<open>os.MkdirAll\<close> and
  \<open>os.WriteFile\<close>: \<open>None\<close> when one of them fails (the file is then taken to be as it
  was), \<open>Some mt\<close> when the file is written and gets the modification time \<open>mt\<close>.
\<close>

definition Save ::
  "(app_schema \<Rightarrow> string option) \<Rightarrow> time option \<Rightarrow> world \<Rightarrow> error option \<times> world" where
  "Save enc wr w =
     (case enc (Data (store w)) of
        None \<Rightarrow> (Some MarshalFailed, w)
      | Some data \<Rightarrow>
          (case wr of
             None \<Rightarrow> (Some WriteFailed, w)
           | Some mt \<Rightarrow>
               (None, \<lparr>store = (store w)\<lparr>lastLoadedTime := mt\<rparr>, disk = File mt data\<rparr>)))"

definition CheckDiskChanges :: "decoders \<Rightarrow> world \<Rightarrow> world" where
  "CheckDiskChanges dec w =
     (case Stat (disk w) of
        None \<Rightarrow> w
      | Some mt \<Rightarrow>
          (let needsReload = After mt (lastLoadedTime (store w))
           in if needsReload then w\<lparr>store := snd (Load dec (disk w) (store w))\<rparr> else w))"

definition AddNotification ::
  "(app_schema \<Rightarrow> string option) \<Rightarrow> time option \<Rightarrow> notification \<Rightarrow> world
     \<Rightarrow> error option \<times> world" where
  "AddNotification enc wr n w =
     Save enc wr
       (w\<lparr>store := (store w)\<lparr>Data := (Data (store w))
            \<lparr>Notifications := Notifications (Data (store w)) @ [n]\<rparr>\<rparr>\<rparr>)"

definition UpdateSettings ::
  "(app_schema \<Rightarrow> string option) \<Rightarrow> time option \<Rightarrow> settings \<Rightarrow> world
     \<Rightarrow> error option \<times> world" where
  "UpdateSettings enc wr st w =
     Save enc wr (w\<lparr>store := (store w)\<lparr>Data := (Data (store w))\<lparr>Settings := st\<rparr>\<rparr>\<rparr>)"

definition GetSettings :: "decoders \<Rightarrow> world \<Rightarrow> settings \<times> world" where
  "GetSettings dec w =
     (let w' = CheckDiskChanges dec w in (Settings (Data (store w')), w'))"

definition GetAllNotifications :: "decoders \<Rightarrow> world \<Rightarrow> notification list \<times> world" where
  "GetAllNotifications dec w =
     (let w' = CheckDiskChanges dec w in (Notifications (Data (store w')), w'))"

definition GetPending :: "decoders \<Rightarrow> world \<Rightarrow> notification list \<times> world" where
  "GetPending dec w =
     (let w' = CheckDiskChanges dec w
      in (filter (\<lambda>n. Status n \<noteq> StatusDone) (Notifications (Data (store w'))), w'))"

text \<open>\<open>GetNotification\<close> reads \<open>s.Data\<close> under the read lock and does nothing else.\<close>

definition GetNotification :: "string \<Rightarrow> world \<Rightarrow> error + notification" where
  "GetNotification ident w =
     (case find (\<lambda>n. ID n = ident) (Notifications (Data (store w))) of
        Some n \<Rightarrow> Inr n
      | None \<Rightarrow> Inl NotFound)"

text \<open>The loop of \<open>UpdateNotification\<close>: \<open>found\<close> and the list it leaves.\<close>

fun updateLoop :: "notification \<Rightarrow> notification list \<Rightarrow> bool \<times> notification list" where
  "updateLoop updated [] = (False, [])"
| "updateLoop updated (n # ns) =
     (if ID n = ID updated then (True, updated # ns)
      else (let (found, ns') = updateLoop updated ns in (found, n # ns')))"

definition UpdateNotification ::
  "(app_schema \<Rightarrow> string option) \<Rightarrow> time option \<Rightarrow> notification \<Rightarrow> world
     \<Rightarrow> error option \<times> world" where
  "UpdateNotification enc wr updated w =
     (let (found, ns') = updateLoop updated (Notifications (Data (store w)));
          w1 = w\<lparr>store := (store w)\<lparr>Data := (Data (store w))\<lparr>Notifications := ns'\<rparr>\<rparr>\<rparr>
      in if \<not> found then (Some NotFound, w1) else Save enc wr w1)"

text \<open>The loop of \<open>DeleteNotification\<close>.\<close>

fun deleteLoop :: "string \<Rightarrow> notification list \<Rightarrow> bool \<times> notification list" where
  "deleteLoop ident [] = (False, [])"
| "deleteLoop ident (n # ns) =
     (if ID n = ident then (True, ns)
      else (let (found, ns') = deleteLoop ident ns in (found, n # ns')))"

definition DeleteNotification ::
  "(app_schema \<Rightarrow> string option) \<Rightarrow> time option \<Rightarrow> string \<Rightarrow> world
     \<Rightarrow> error option \<times> world" where
  "DeleteNotification enc wr ident w =
     (let (found, ns') = deleteLoop ident (Notifications (Data (store w)));
          w1 = w\<lparr>store := (store w)\<lparr>Data := (Data (store w))\<lparr>Notifications := ns'\<rparr>\<rparr>\<rparr>
      in if \<not> found then (Some NotFound, w1) else Save enc wr w1)"

section \<open>checkAndProcess: the evaluation pass\<close>

text \<open>
  What a pass leaves: the instant it returns, the store and the file, the calls of
  \<open>SendMessage\<close> it made, and whether it called the update hook. The parameters besides
  the library's: \<open>hook\<close>, whether \<open>onUpdate\<close> is set; \<open>now\<close>, the reading of
  \<open>time.Now()\<close>; \<open>wr\<close>, the outcome of the write if the pass saves.
\<close>

record pass =
  nextRun :: time
  after :: world
  calls :: "(nat \<times> string) list"
  hookCalled :: bool

definition checkAndProcess ::
  "decoders \<Rightarrow> (app_schema \<Rightarrow> string option) \<Rightarrow> (string \<Rightarrow> duration option) \<Rightarrow> (nat \<Rightarrow> bool)
     \<Rightarrow> bool \<Rightarrow> time \<Rightarrow> time option \<Rightarrow> world \<Rightarrow> pass" where
  "checkAndProcess dec enc pd port hook now wr w =
     (let (settings, w1) = GetSettings dec w
      in if PushoverToken settings = [] \<or> PushoverUser settings = []
         then \<lparr>nextRun = 0, after = w1, calls = [], hookCalled = False\<rparr>
         else
           (let (pending, w2) = GetPending dec w1;
                (pending', a) =
                   forPending pd port now 0 pending
                     \<lparr>earliestNext = 0, saveNeeded = False, sent = []\<rparr>;
                w3 = w2\<lparr>store := (store w2)\<lparr>Data := (Data (store w2))
                       \<lparr>Notifications :=
                          writeBack (Notifications (Data (store w2))) pending'\<rparr>\<rparr>\<rparr>
            in if saveNeeded a
               then (case Save enc wr w3 of
                       (Some e, w4) \<Rightarrow>
                         \<lparr>nextRun = earliestNext a, after = w4, calls = sent a,
                          hookCalled = False\<rparr>
                     | (None, w4) \<Rightarrow>
                         \<lparr>nextRun = earliestNext a, after = w4, calls = sent a,
                          hookCalled = hook\<rparr>)
               else \<lparr>nextRun = earliestNext a, after = w3, calls = sent a,
                     hookCalled = False\<rparr>))"

section \<open>Sample values\<close>

text \<open>
  A parser that agrees with \<open>time.ParseDuration\<close> on the three strings the examples use:
  it accepts \<open>30m\<close> and \<open>1h\<close> and rejects the empty string.
\<close>

definition parseSample :: "string \<Rightarrow> duration option" where
  "parseSample s =
     (if s = ''30m'' then Some 1800000000000
      else if s = ''1h'' then Some 3600000000000
      else None)"

text \<open>2024-01-30T09:00:00Z and five minutes later, in nanoseconds since the zero time.\<close>

definition t0900 :: time where
  "t0900 = 63842202000000000000"

definition t0905 :: time where
  "t0905 = 63842202300000000000"

definition reminder :: notification where
  "reminder =
     \<lparr>ID = ''a'', Content = ''Review project proposal'', ScheduledTime = t0900,
      Status = StatusPending, SendsCount = 0, LastPushTime = 0,
      RepeatTimes = 3, RepeatInterval = ''30m''\<rparr>"

definition credentials :: settings where
  "credentials =
     \<lparr>PushoverToken = ''token'', PushoverUser = ''user'', DefaultRepeatTimes = 5,
      DefaultRepeatInterval = ''1h'', Password = ''secret''\<rparr>"

text \<open>A store holding the reminder, with no file written yet.\<close>

definition world0 :: world where
  "world0 =
     \<lparr>store = \<lparr>Data = \<lparr>Settings = credentials, Notifications = [reminder]\<rparr>,
               lastLoadedTime = 0\<rparr>,
      disk = NoFile\<rparr>"

text \<open>
  Three documents: one in the current format, holding \<open>credentials\<close> and the reminder;
  one in the legacy format, a bare list holding the reminder without the two fields the
  legacy format did not have; and one that is not JSON.
\<close>

definition schemaDoc :: string where
  \<open>schemaDoc = ''{"settings":{"pushover_token":"token","pushover_user":"user","repeat_times":5,"repeat_interval":"1h","password":"secret"},"notifications":[{"id":"a","content":"Review project proposal","scheduled_time":"2024-01-30T09:00:00Z","status":"Pending","sends_count":0,"last_push_time":"0001-01-01T00:00:00Z","repeat_times":3,"repeat_interval":"30m"}]}''\<close>

definition legacyDoc :: string where
  \<open>legacyDoc = ''[{"id":"a","content":"Review project proposal","scheduled_time":"2024-01-30T09:00:00Z","status":"Pending","sends_count":0,"last_push_time":"0001-01-01T00:00:00Z"}]''\<close>

definition brokenDoc :: string where
  "brokenDoc = ''not json''"

definition legacyReminder :: notification where
  "legacyReminder = reminder\<lparr>RepeatTimes := 0, RepeatInterval := []\<rparr>"

text \<open>
  Decoders that agree with \<open>json.Unmarshal\<close> on these three documents. The current
  document names every key, so what it decodes to does not depend on the old schema; the
  other two fail as a schema and leave the old schema as it was (an array does not
  decode into a struct, and a syntax error is found before anything is stored).
\<close>

definition decodeSample :: decoders where
  "decodeSample =
     \<lparr>UnmarshalSchema =
        (\<lambda>data old. if data = schemaDoc
                     then Inr \<lparr>Settings = credentials, Notifications = [reminder]\<rparr>
                     else Inl old),
      UnmarshalList = (\<lambda>data. if data = legacyDoc then Some [legacyReminder] else None)\<rparr>"

text \<open>
  An encoder for the examples, standing in for \<open>json.MarshalIndent\<close>: it succeeds, and
  no example reads back the bytes it returns.
\<close>

definition encodeSample :: "app_schema \<Rightarrow> string option" where
  "encodeSample d = Some ''{}''"

text \<open>A Delivery Port that fails every call, and one that succeeds.\<close>

definition portDown :: "nat \<Rightarrow> bool" where
  "portDown i = False"

definition portUp :: "nat \<Rightarrow> bool" where
  "portUp i = True"

text \<open>
  The reminder after three deliveries, still \<open>Pending\<close> (as it is when its repeat count
  is edited down to 3 after the third delivery, or when the file says so), alone in a
  store; and a store with a reminder that has one delivery left and one that is \<open>Done\<close>.
\<close>

definition spentReminder :: notification where
  "spentReminder = reminder\<lparr>SendsCount := 3\<rparr>"

definition worldSpent :: world where
  "worldSpent =
     \<lparr>store = \<lparr>Data = \<lparr>Settings = credentials, Notifications = [spentReminder]\<rparr>,
               lastLoadedTime = 0\<rparr>,
      disk = NoFile\<rparr>"

definition lastReminder :: notification where
  "lastReminder = reminder\<lparr>SendsCount := 2\<rparr>"

definition doneReminder :: notification where
  "doneReminder = reminder\<lparr>ID := ''b'', Status := StatusDone, SendsCount := 3\<rparr>"

definition worldLast :: world where
  "worldLast =
     \<lparr>store = \<lparr>Data = \<lparr>Settings = credentials,
                       Notifications = [doneReminder, lastReminder]\<rparr>,
               lastLoadedTime = 0\<rparr>,
      disk = NoFile\<rparr>"

text \<open>2024-01-30T10:01:00Z.\<close>

definition t1001 :: time where
  "t1001 = 63842205660000000000"

text \<open>
  A reminder whose repeat count and interval are unset, after three deliveries, in a
  store whose settings give the defaults 5 and \<open>1h\<close>; and 11:00 on the same day.
\<close>

definition unsetReminder :: notification where
  "unsetReminder = reminder\<lparr>SendsCount := 3, RepeatTimes := 0, RepeatInterval := []\<rparr>"

definition worldUnset :: world where
  "worldUnset =
     \<lparr>store = \<lparr>Data = \<lparr>Settings = credentials, Notifications = [unsetReminder]\<rparr>,
               lastLoadedTime = 0\<rparr>,
      disk = NoFile\<rparr>"

definition t1100 :: time where
  "t1100 = 63842209200000000000"

text \<open>
  A store that loaded when there was no file, and the file that another process has
  written since, at 09:00, holding the reminder.
\<close>

definition worldStale :: world where
  "worldStale =
     \<lparr>store = \<lparr>Data = \<lparr>Settings = defaultSettings, Notifications = []\<rparr>,
               lastLoadedTime = 0\<rparr>,
      disk = File t0900 schemaDoc\<rparr>"

section \<open>Auxiliary facts\<close>

lemma not_sle_iff: "(\<not> (a::64 word) \<le>s b) \<longleftrightarrow> b <s a"
  by (simp add: word_sless_alt word_sle_eq not_le)

lemma sint_succ:
  fixes a b :: "64 word"
  assumes "a <s b"
  shows "sint (a + 1) = sint a + 1"
proof -
  have "sint b < 2 ^ 63"
    using sint_lt [of b] by simp
  moreover have "- (2 ^ 63) \<le> sint a"
    using sint_ge [of a] by simp
  moreover have "sint a < sint b"
    using assms by (simp add: word_sless_alt)
  ultimately have "- (2 ^ 63) \<le> sint a + 1 \<and> sint a + 1 < 2 ^ 63"
    by linarith
  then have "signed_take_bit 63 (sint a + 1) = sint a + 1"
    by (simp add: signed_take_bit_int_eq_self)
  then show ?thesis
    by (simp add: sint_word_ariths)
qed

lemma loopBody_fst:
  "fst (loopBody pd port now i n a) =
     (if \<not> Before now (nextSendTime pd n) then
        (let n1 = (if SendsCount n <s repeatTimes n then
                     (if \<not> port i then n\<lparr>LastPushTime := now\<rparr>
                      else n\<lparr>SendsCount := SendsCount n + 1, LastPushTime := now\<rparr>)
                   else n)
         in if repeatTimes n \<le>s SendsCount n1 then n1\<lparr>Status := StatusDone\<rparr> else n1)
      else n)"
  by (simp add: loopBody_def Let_def split: prod.splits)

lemma loopBody_fst_acc:
  "fst (loopBody pd port now i n a) = fst (loopBody pd port now i n b)"
  by (simp add: loopBody_fst)

lemma forPending_length: "length (fst (forPending pd port now i ns a)) = length ns"
  by (induction ns arbitrary: i a) (simp_all add: split_def Let_def)

lemma forPending_nth:
  "k < length ns \<Longrightarrow>
     fst (forPending pd port now i ns a) ! k = fst (loopBody pd port now (i + k) (ns ! k) b)"
proof (induction ns arbitrary: i a k)
  case Nil
  then show ?case by simp
next
  case (Cons n ns)
  show ?case
  proof (cases k)
    case 0
    then show ?thesis
      by (simp add: split_def Let_def loopBody_fst_acc [of pd port now i n a b])
  next
    case (Suc k')
    with Cons.prems have "k' < length ns" by simp
    from Cons.IH [OF this] Suc show ?thesis
      by (simp add: split_def Let_def)
  qed
qed

lemma writeBack_length: "length (writeBack ns us) = length ns"
  by (induction ns arbitrary: us) (simp_all split: list.splits)

lemma writeBack_nth_done:
  "j < length ns \<Longrightarrow> Status (ns ! j) = StatusDone \<Longrightarrow> writeBack ns us ! j = ns ! j"
proof (induction ns arbitrary: us j)
  case Nil
  then show ?case by simp
next
  case (Cons n ns)
  then show ?case
    by (cases j) (auto split: list.splits)
qed

lemma writeBack_nth_pending:
  "j < length ns \<Longrightarrow> Status (ns ! j) \<noteq> StatusDone \<Longrightarrow>
   length us = length (filter (\<lambda>n. Status n \<noteq> StatusDone) ns) \<Longrightarrow>
   writeBack ns us ! j = us ! pendingIndex ns j"
proof (induction ns arbitrary: us j)
  case Nil
  then show ?case by simp
next
  case (Cons n ns)
  show ?case
  proof (cases j)
    case 0
    with Cons.prems show ?thesis
      by (cases us) (simp_all add: pendingIndex_def)
  next
    case (Suc j')
    with Cons.prems have j': "j' < length ns" "Status (ns ! j') \<noteq> StatusDone"
      by simp_all
    show ?thesis
    proof (cases "Status n \<noteq> StatusDone")
      case True
      with Cons.prems obtain u us' where us: "us = u # us'"
        by (cases us) simp_all
      with Cons.prems True
      have "length us' = length (filter (\<lambda>n. Status n \<noteq> StatusDone) ns)"
        by simp
      from Cons.IH [OF j' this] True us Suc show ?thesis
        by (simp add: pendingIndex_def)
    next
      case False
      with Cons.prems
      have "length us = length (filter (\<lambda>n. Status n \<noteq> StatusDone) ns)"
        by simp
      from Cons.IH [OF j' this] False Suc show ?thesis
        by (simp add: pendingIndex_def)
    qed
  qed
qed

lemma pendingIndex_less:
  "j < length ns \<Longrightarrow> Status (ns ! j) \<noteq> StatusDone \<Longrightarrow>
   pendingIndex ns j < length (filter (\<lambda>n. Status n \<noteq> StatusDone) ns)"
proof (induction ns arbitrary: j)
  case Nil
  then show ?case by simp
next
  case (Cons n ns)
  then show ?case
    by (cases j) (auto simp: pendingIndex_def)
qed

lemma pendingIndex_nth:
  "j < length ns \<Longrightarrow> Status (ns ! j) \<noteq> StatusDone \<Longrightarrow>
   filter (\<lambda>n. Status n \<noteq> StatusDone) ns ! pendingIndex ns j = ns ! j"
proof (induction ns arbitrary: j)
  case Nil
  then show ?case by simp
next
  case (Cons n ns)
  then show ?case
    by (cases j) (auto simp: pendingIndex_def)
qed

lemma Save_Data: "Data (store (snd (Save enc wr w))) = Data (store w)"
  by (simp add: Save_def split: option.splits)

lemma checkAndProcess_notifications:
  assumes "PushoverToken (fst (GetSettings dec w)) \<noteq> []"
    and "PushoverUser (fst (GetSettings dec w)) \<noteq> []"
  shows "Notifications (Data (store (after (checkAndProcess dec enc pd port hook now wr w)))) =
     writeBack (Notifications (Data (store (snd (GetPending dec (snd (GetSettings dec w)))))))
       (fst (forPending pd port now 0 (fst (GetPending dec (snd (GetSettings dec w))))
               \<lparr>earliestNext = 0, saveNeeded = False, sent = []\<rparr>))"
  using assms
  apply (simp add: checkAndProcess_def split_def Let_def)
  apply (auto simp: Save_def split: option.splits)
  done

section \<open>Anchored slots\<close>

lemma sint_Minute: "sint Minute = 60000000000"
  by (simp add: Minute_def)

lemma nextSendTime_anchor:
  "nextSendTime pd n =
     Add (Truncate (ScheduledTime n) Minute) (repeatInterval pd n * SendsCount n)"
  by (simp add: nextSendTime_def Add_def)

lemma sint_mult_in_range:
  fixes a b :: "64 word"
  assumes "- (2 ^ 63) \<le> sint a * sint b" and "sint a * sint b < 2 ^ 63"
  shows "sint (a * b) = sint a * sint b"
proof -
  have "signed_take_bit 63 (sint a * sint b) = sint a * sint b"
    using assms by (simp add: signed_take_bit_int_eq_self)
  then show ?thesis
    by (simp add: sint_word_ariths)
qed

lemma loopBody_sent:
  "sent (snd (loopBody pd port now i n a)) =
     (if \<not> Before now (nextSendTime pd n) \<and> SendsCount n <s repeatTimes n
      then sent a @ [(i, Content n)] else sent a)"
  by (simp add: loopBody_def Let_def split: prod.splits)

text \<open>
  C1. The due instant of the attempt numbered \<open>SendsCount n\<close> is the scheduled time
  truncated to the minute plus the effective interval times \<open>SendsCount n\<close> (the product
  taken as Go takes it, in \<open>Duration\<close>); it does not depend on \<open>LastPushTime\<close>, the only
  trace an earlier delivery leaves besides the count; and the pass calls the Delivery
  Port for the notification exactly when the current time has reached that instant and
  the count is below the effective repeat count. Where the product fits a \<open>Duration\<close>
  the instant is the integer \<open>T - T mod 1min + I * k\<close>.
\<close>

theorem C1_anchored_due_instant:
  "nextSendTime pd n =
     Add (Truncate (ScheduledTime n) Minute) (repeatInterval pd n * SendsCount n)
   \<and> nextSendTime pd (n\<lparr>LastPushTime := t\<rparr>) = nextSendTime pd n
   \<and> (sent (snd (loopBody pd port now i n a)) = sent a @ [(i, Content n)] \<longleftrightarrow>
        Add (Truncate (ScheduledTime n) Minute) (repeatInterval pd n * SendsCount n) \<le> now
        \<and> SendsCount n <s repeatTimes n)
   \<and> (- (2 ^ 63) \<le> sint (repeatInterval pd n) * sint (SendsCount n)
        \<and> sint (repeatInterval pd n) * sint (SendsCount n) < 2 ^ 63 \<longrightarrow>
      nextSendTime pd n =
        ScheduledTime n - ScheduledTime n mod 60000000000
          + sint (repeatInterval pd n) * sint (SendsCount n))"
proof -
  have anchor: "nextSendTime pd n =
      Add (Truncate (ScheduledTime n) Minute) (repeatInterval pd n * SendsCount n)"
    by (rule nextSendTime_anchor)
  have indep: "nextSendTime pd (n\<lparr>LastPushTime := t\<rparr>) = nextSendTime pd n"
    by (simp add: nextSendTime_def repeatInterval_def)
  have called: "sent (snd (loopBody pd port now i n a)) = sent a @ [(i, Content n)] \<longleftrightarrow>
      Add (Truncate (ScheduledTime n) Minute) (repeatInterval pd n * SendsCount n) \<le> now
      \<and> SendsCount n <s repeatTimes n"
    unfolding loopBody_sent anchor [symmetric]
    by (simp add: Before_def not_less)
  have exact: "nextSendTime pd n =
      ScheduledTime n - ScheduledTime n mod 60000000000
        + sint (repeatInterval pd n) * sint (SendsCount n)"
    if "- (2 ^ 63) \<le> sint (repeatInterval pd n) * sint (SendsCount n)"
      and "sint (repeatInterval pd n) * sint (SendsCount n) < 2 ^ 63"
    using sint_mult_in_range [OF that]
    by (simp add: anchor Add_def Truncate_def sint_Minute)
  from anchor indep called exact show ?thesis
    by blast
qed

lemma sample_interval:
  "repeatInterval parseSample (reminder\<lparr>SendsCount := 2\<rparr>) = 1800000000000"
  by (simp add: repeatInterval_def parseSample_def reminder_def)

theorem C1_anchored_due_instant_witness:
  "(- (2 ^ 63) \<le> sint (repeatInterval parseSample (reminder\<lparr>SendsCount := 2\<rparr>))
                  * sint (SendsCount (reminder\<lparr>SendsCount := 2\<rparr>))
    \<and> sint (repeatInterval parseSample (reminder\<lparr>SendsCount := 2\<rparr>))
        * sint (SendsCount (reminder\<lparr>SendsCount := 2\<rparr>)) < 2 ^ 63)
   \<and> nextSendTime parseSample (reminder\<lparr>SendsCount := 2\<rparr>) = t0900 + 3600000000000"
  using C1_anchored_due_instant [of parseSample "reminder\<lparr>SendsCount := 2\<rparr>" 0 portUp t0905 0
      "\<lparr>earliestNext = 0, saveNeeded = False, sent = []\<rparr>"]
  by (simp add: sample_interval) (simp add: reminder_def t0900_def)

section \<open>Failed deliveries\<close>

lemma GetPending_fst:
  "fst (GetPending dec w) =
     filter (\<lambda>n. Status n \<noteq> StatusDone) (Notifications (Data (store (snd (GetPending dec w)))))"
  by (simp add: GetPending_def Let_def)

lemma checkAndProcess_nth_pending:
  assumes "PushoverToken (fst (GetSettings dec w)) \<noteq> []"
    and "PushoverUser (fst (GetSettings dec w)) \<noteq> []"
    and ns: "ns = Notifications (Data (store (snd (GetPending dec (snd (GetSettings dec w))))))"
    and j: "j < length ns" and pend: "Status (ns ! j) \<noteq> StatusDone"
  shows "Notifications (Data (store (after (checkAndProcess dec enc pd port hook now wr w)))) ! j =
     fst (loopBody pd port now (pendingIndex ns j) (ns ! j) b)"
proof -
  let ?a0 = "\<lparr>earliestNext = 0, saveNeeded = False, sent = []\<rparr>"
  let ?pending = "filter (\<lambda>n. Status n \<noteq> StatusDone) ns"
  let ?us = "fst (forPending pd port now 0 ?pending ?a0)"
  have "Notifications (Data (store (after (checkAndProcess dec enc pd port hook now wr w)))) =
      writeBack ns ?us"
    using checkAndProcess_notifications [OF assms(1,2)] ns
    by (simp add: GetPending_fst)
  moreover have "writeBack ns ?us ! j = ?us ! pendingIndex ns j"
    using j pend by (rule writeBack_nth_pending) (simp add: forPending_length)
  moreover have "?us ! pendingIndex ns j =
      fst (loopBody pd port now (0 + pendingIndex ns j) (?pending ! pendingIndex ns j) b)"
    by (rule forPending_nth) (rule pendingIndex_less [OF j pend])
  moreover have "?pending ! pendingIndex ns j = ns ! j"
    using j pend by (rule pendingIndex_nth)
  ultimately show ?thesis
    by simp
qed

lemma checkAndProcess_nth_done:
  assumes "PushoverToken (fst (GetSettings dec w)) \<noteq> []"
    and "PushoverUser (fst (GetSettings dec w)) \<noteq> []"
    and ns: "ns = Notifications (Data (store (snd (GetPending dec (snd (GetSettings dec w))))))"
    and j: "j < length ns" and fin: "Status (ns ! j) = StatusDone"
  shows "Notifications (Data (store (after (checkAndProcess dec enc pd port hook now wr w)))) ! j =
     ns ! j"
  using checkAndProcess_notifications [OF assms(1,2)] ns writeBack_nth_done [OF j fin]
  by simp

lemma loopBody_failed:
  assumes "\<not> Before now (nextSendTime pd n)" and "SendsCount n <s repeatTimes n" and "\<not> port i"
  shows "fst (loopBody pd port now i n a) = n\<lparr>LastPushTime := now\<rparr>"
proof -
  have "\<not> repeatTimes n \<le>s SendsCount n"
    using assms(2) by (simp add: not_sle_iff)
  with assms show ?thesis
    by (simp add: loopBody_fst Let_def)
qed

text \<open>
  C2. In a pass that finds a pending notification due, with attempts left, and whose
  call of the Delivery Port fails, the store's record keeps its \<open>SendsCount\<close> and its
  \<open>Status\<close> and gets \<open>LastPushTime = now\<close>; its slot is the same instant as before, and
  at any later time the loop body finds it due again and calls the Delivery Port for it
  again, whatever the port then answers.
\<close>

theorem C2_failed_delivery_keeps_slot:
  assumes creds: "PushoverToken (fst (GetSettings dec w)) \<noteq> []"
      "PushoverUser (fst (GetSettings dec w)) \<noteq> []"
    and ns: "ns = Notifications (Data (store (snd (GetPending dec (snd (GetSettings dec w))))))"
    and ns': "ns' = Notifications (Data (store (after
                      (checkAndProcess dec enc pd port hook now wr w))))"
    and j: "j < length ns" and pend: "Status (ns ! j) \<noteq> StatusDone"
    and due: "\<not> Before now (nextSendTime pd (ns ! j))"
    and budget: "SendsCount (ns ! j) <s repeatTimes (ns ! j)"
    and fails: "\<not> port (pendingIndex ns j)"
    and later: "now \<le> now'"
  shows "SendsCount (ns' ! j) = SendsCount (ns ! j)
     \<and> Status (ns' ! j) = Status (ns ! j)
     \<and> LastPushTime (ns' ! j) = now
     \<and> nextSendTime pd (ns' ! j) = nextSendTime pd (ns ! j)
     \<and> \<not> Before now' (nextSendTime pd (ns' ! j))
     \<and> sent (snd (loopBody pd port' now' i (ns' ! j) a)) = sent a @ [(i, Content (ns ! j))]"
proof -
  have eq: "ns' ! j = (ns ! j)\<lparr>LastPushTime := now\<rparr>"
    unfolding ns'
    using checkAndProcess_nth_pending [OF creds ns j pend, of enc pd port hook now wr a]
      loopBody_failed [of now pd "ns ! j" port "pendingIndex ns j" a] due budget fails
    by simp
  have slot: "nextSendTime pd (ns' ! j) = nextSendTime pd (ns ! j)"
    by (simp add: eq nextSendTime_def repeatInterval_def)
  have still: "\<not> Before now' (nextSendTime pd (ns' ! j))"
    using due later by (simp add: slot Before_def)
  have again: "sent (snd (loopBody pd port' now' i (ns' ! j) a)) = sent a @ [(i, Content (ns ! j))]"
  proof -
    have "repeatTimes (ns' ! j) = repeatTimes (ns ! j)"
      by (simp add: eq repeatTimes_def)
    with still budget show ?thesis
      by (simp add: loopBody_sent) (simp add: eq)
  qed
  from eq slot still again show ?thesis
    by simp
qed


lemma CheckDiskChanges_world0: "CheckDiskChanges dec world0 = world0"
  by (simp add: CheckDiskChanges_def world0_def Stat_def)

lemma CheckDiskChanges_Save:
  assumes "CheckDiskChanges dec w = w"
  shows "CheckDiskChanges dec (snd (Save enc wr w)) = snd (Save enc wr w)"
proof (cases "enc (Data (store w))")
  case None
  with assms show ?thesis by (simp add: Save_def)
next
  case (Some data)
  show ?thesis
  proof (cases wr)
    case None
    with Some assms show ?thesis by (simp add: Save_def)
  next
    case (Some mt)
    with \<open>enc (Data (store w)) = Some data\<close> show ?thesis
      by (simp add: Save_def CheckDiskChanges_def Stat_def After_def)
  qed
qed

lemma nextSendTime_reminder: "nextSendTime parseSample (reminder\<lparr>LastPushTime := t\<rparr>) = t0900"
  by (simp add: nextSendTime_def reminder_def Truncate_def Minute_def t0900_def)

lemma repeatTimes_reminder: "repeatTimes (reminder\<lparr>LastPushTime := t\<rparr>) = 3"
  by (simp add: repeatTimes_def reminder_def)

lemma loopBody_reminder_down:
  assumes "t0900 \<le> now"
  shows "loopBody parseSample portDown now 0 (reminder\<lparr>LastPushTime := t\<rparr>)
           \<lparr>earliestNext = 0, saveNeeded = False, sent = []\<rparr> =
         (reminder\<lparr>LastPushTime := now\<rparr>,
          \<lparr>earliestNext = t0900, saveNeeded = True, sent = [(0, ''Review project proposal'')]\<rparr>)"
proof -
  have a: "\<not> Before now (nextSendTime parseSample (reminder\<lparr>LastPushTime := t\<rparr>))"
    using assms by (simp add: nextSendTime_reminder Before_def)
  have b: "SendsCount (reminder\<lparr>LastPushTime := t\<rparr>) <s repeatTimes (reminder\<lparr>LastPushTime := t\<rparr>)"
    by (simp add: repeatTimes_reminder) (simp add: reminder_def word_sless_alt)
  have c: "\<not> repeatTimes (reminder\<lparr>LastPushTime := t\<rparr>) \<le>s SendsCount (reminder\<lparr>LastPushTime := t\<rparr>)"
    using b by (simp add: not_sle_iff)
  have d: "Add (Truncate (ScheduledTime (reminder\<lparr>LastPushTime := now\<rparr>)) Minute)
             (repeatInterval parseSample (reminder\<lparr>LastPushTime := t\<rparr>)
                * SendsCount (reminder\<lparr>LastPushTime := now\<rparr>)) = t0900"
    by (simp add: reminder_def Truncate_def Minute_def t0900_def Add_def)
  have e: "Content (reminder\<lparr>LastPushTime := t\<rparr>) = ''Review project proposal''"
    by (simp add: reminder_def)
  show ?thesis
    unfolding loopBody_def
    using a b c d e by (simp add: portDown_def IsZero_def)
qed


lemma pass_reminder_down:
  assumes quiet: "CheckDiskChanges dec w = w"
    and data: "Data (store w) =
        \<lparr>Settings = credentials, Notifications = [reminder\<lparr>LastPushTime := t\<rparr>]\<rparr>"
    and due: "t0900 \<le> now"
  shows "nextRun (checkAndProcess dec enc parseSample portDown hook now wr w) = t0900
     \<and> calls (checkAndProcess dec enc parseSample portDown hook now wr w) =
          [(0, ''Review project proposal'')]
     \<and> after (checkAndProcess dec enc parseSample portDown hook now wr w) =
          snd (Save enc wr (w\<lparr>store := (store w)\<lparr>Data :=
                 \<lparr>Settings = credentials,
                  Notifications = [reminder\<lparr>LastPushTime := now\<rparr>]\<rparr>\<rparr>\<rparr>))"
proof -
  have gs: "GetSettings dec w = (credentials, w)"
    by (simp add: GetSettings_def quiet data)
  have gp: "GetPending dec w = ([reminder\<lparr>LastPushTime := t\<rparr>], w)"
    by (simp add: GetPending_def quiet data) (simp add: reminder_def StatusPending_def StatusDone_def)
  have cr: "PushoverToken credentials \<noteq> [] \<and> PushoverUser credentials \<noteq> []"
    by (simp add: credentials_def)
  have wb: "Status reminder \<noteq> StatusDone"
    by (simp add: reminder_def StatusPending_def StatusDone_def)
  have upd: "Data (store w)\<lparr>Notifications := [reminder\<lparr>LastPushTime := now\<rparr>]\<rparr> =
      \<lparr>Settings = credentials, Notifications = [reminder\<lparr>LastPushTime := now\<rparr>]\<rparr>"
    by (simp add: data)
  show ?thesis
    unfolding checkAndProcess_def
    by (simp add: gs gp cr loopBody_reminder_down [OF due] data wb split: prod.splits option.splits)
qed

lemma reminder_fresh: "reminder\<lparr>LastPushTime := 0\<rparr> = reminder"
  by (simp add: reminder_def)

text \<open>
  C3. The reminder is five minutes past due and the Delivery Port is down. The pass
  makes one call, which fails, and returns the slot it has just tried, 09:00, which is in
  the past: \<open>Start\<close> resets the timer to zero. The following pass, a millisecond
  later, calls the Delivery Port for the same slot again and again returns 09:00, so the
  timer is reset to zero once more. Setting \<open>LastPushTime\<close> does not space the retries,
  since the due instant does not depend on it.
\<close>

theorem C3_failed_delivery_rearms_timer_at_once:
  "nextRun (checkAndProcess dec enc parseSample portDown hook t0905 wr world0) = t0900
   \<and> calls (checkAndProcess dec enc parseSample portDown hook t0905 wr world0) =
        [(0, ''Review project proposal'')]
   \<and> timerDuration t0900 t0905 = Some 0
   \<and> nextRun (checkAndProcess dec enc parseSample portDown hook (t0905 + 1000000) wr'
        (after (checkAndProcess dec enc parseSample portDown hook t0905 wr world0))) = t0900
   \<and> calls (checkAndProcess dec enc parseSample portDown hook (t0905 + 1000000) wr'
        (after (checkAndProcess dec enc parseSample portDown hook t0905 wr world0))) =
        [(0, ''Review project proposal'')]
   \<and> timerDuration t0900 (t0905 + 1000000) = Some 0"
proof -
  let ?w1 = "world0\<lparr>store := (store world0)\<lparr>Data :=
      \<lparr>Settings = credentials, Notifications = [reminder\<lparr>LastPushTime := t0905\<rparr>]\<rparr>\<rparr>\<rparr>"
  have d0: "Data (store world0) =
      \<lparr>Settings = credentials, Notifications = [reminder\<lparr>LastPushTime := 0\<rparr>]\<rparr>"
    by (simp add: world0_def reminder_fresh)
  have le1: "t0900 \<le> t0905" and le2: "t0900 \<le> t0905 + 1000000"
    by (simp_all add: t0900_def t0905_def)
  note p1 = pass_reminder_down [OF CheckDiskChanges_world0 d0 le1, of dec enc hook wr]
  have q1: "CheckDiskChanges dec ?w1 = ?w1"
    by (simp add: CheckDiskChanges_def world0_def Stat_def)
  have q2: "CheckDiskChanges dec (snd (Save enc wr ?w1)) = snd (Save enc wr ?w1)"
    using q1 by (rule CheckDiskChanges_Save)
  have d1: "Data (store (snd (Save enc wr ?w1))) =
      \<lparr>Settings = credentials, Notifications = [reminder\<lparr>LastPushTime := t0905\<rparr>]\<rparr>"
    by (simp add: Save_Data)
  note p2 = pass_reminder_down [OF q2 d1 le2, of enc hook wr']
  have t1: "timerDuration t0900 t0905 = Some 0"
    by (simp add: timerDuration_def IsZero_def Sub_def t0900_def t0905_def Let_def word_sless_alt)
  have t2: "timerDuration t0900 (t0905 + 1000000) = Some 0"
    by (simp add: timerDuration_def IsZero_def Sub_def t0900_def t0905_def Let_def word_sless_alt)
  from p1 p2 t1 t2 show ?thesis
    by simp
qed


lemma GetSettings_world0: "GetSettings dec world0 = (credentials, world0)"
  by (simp add: GetSettings_def CheckDiskChanges_world0) (simp add: world0_def)

lemma GetPending_world0: "GetPending dec world0 = ([reminder], world0)"
  by (simp add: GetPending_def CheckDiskChanges_world0)
     (simp add: world0_def reminder_def StatusPending_def StatusDone_def)

theorem C2_failed_delivery_keeps_slot_witness:
  "PushoverToken (fst (GetSettings decodeSample world0)) \<noteq> []
   \<and> PushoverUser (fst (GetSettings decodeSample world0)) \<noteq> []
   \<and> Notifications (Data (store (snd (GetPending decodeSample
         (snd (GetSettings decodeSample world0)))))) = [reminder]
   \<and> 0 < length [reminder] \<and> Status ([reminder] ! 0) \<noteq> StatusDone
   \<and> \<not> Before t0905 (nextSendTime parseSample ([reminder] ! 0))
   \<and> SendsCount ([reminder] ! 0) <s repeatTimes ([reminder] ! 0)
   \<and> \<not> portDown (pendingIndex [reminder] 0)
   \<and> t0905 \<le> t0905 + 1000000
   \<and> SendsCount (Notifications (Data (store (after
         (checkAndProcess decodeSample encodeSample parseSample portDown True t0905
            (Some t0905) world0)))) ! 0) = 0
   \<and> LastPushTime (Notifications (Data (store (after
         (checkAndProcess decodeSample encodeSample parseSample portDown True t0905
            (Some t0905) world0)))) ! 0) = t0905
   \<and> Status (Notifications (Data (store (after
         (checkAndProcess decodeSample encodeSample parseSample portDown True t0905
            (Some t0905) world0)))) ! 0) = StatusPending
   \<and> \<not> Before (t0905 + 1000000) (nextSendTime parseSample
         (Notifications (Data (store (after
           (checkAndProcess decodeSample encodeSample parseSample portDown True t0905
              (Some t0905) world0)))) ! 0))"
proof -
  have h1: "PushoverToken (fst (GetSettings decodeSample world0)) \<noteq> []"
    and h2: "PushoverUser (fst (GetSettings decodeSample world0)) \<noteq> []"
    by (simp_all add: GetSettings_world0 credentials_def)
  have h3: "[reminder] = Notifications (Data (store (snd (GetPending decodeSample
         (snd (GetSettings decodeSample world0))))))"
    by (simp add: GetSettings_world0 GetPending_world0) (simp add: world0_def)
  have h4: "0 < length [reminder]"
    by simp
  have h5: "Status ([reminder] ! 0) \<noteq> StatusDone"
    by (simp add: reminder_def StatusPending_def StatusDone_def)
  have h6: "\<not> Before t0905 (nextSendTime parseSample ([reminder] ! 0))"
    using nextSendTime_reminder [of 0]
    by (simp add: reminder_fresh Before_def t0900_def t0905_def)
  have h7: "SendsCount ([reminder] ! 0) <s repeatTimes ([reminder] ! 0)"
    using repeatTimes_reminder [of 0]
    by (simp add: reminder_fresh) (simp add: reminder_def word_sless_alt)
  have h8: "\<not> portDown (pendingIndex [reminder] 0)"
    by (simp add: portDown_def)
  have h9: "t0905 \<le> t0905 + 1000000"
    by simp
  have r: "Status ([reminder] ! 0) = StatusPending" "SendsCount ([reminder] ! 0) = 0"
    by (simp_all add: reminder_def)
  have r': "\<not> Before (t0905 + 1000000) (nextSendTime parseSample reminder)"
    using nextSendTime_reminder [of 0]
    by (simp add: reminder_fresh Before_def t0900_def t0905_def)
  note inst = C2_failed_delivery_keeps_slot [where dec = decodeSample and w = world0
      and ns = "[reminder]" and j = 0 and pd = parseSample and port = portDown
      and now = t0905 and now' = "t0905 + 1000000" and enc = encodeSample and hook = True
      and wr = "Some t0905" and port' = portUp and i = 0
      and a = "\<lparr>earliestNext = 0, saveNeeded = False, sent = []\<rparr>"]
  from inst [OF h1 h2 h3 refl h4 h5 h6 h7 h8 h9]
    h1 h2 h3 [symmetric] h4 h5 h6 h7 h8 h9 r r'
  show ?thesis
    by simp
qed

section \<open>Exhausted notifications\<close>

lemma loopBody_due_spent:
  assumes "\<not> Before now (nextSendTime pd n)"
  shows "repeatTimes (fst (loopBody pd port now i n a)) = repeatTimes n
     \<and> (repeatTimes n \<le>s SendsCount (fst (loopBody pd port now i n a)) \<longrightarrow>
          Status (fst (loopBody pd port now i n a)) = StatusDone)"
  using assms by (simp add: loopBody_fst Let_def repeatTimes_def)

lemma checkAndProcess_nextRun:
  assumes "PushoverToken (fst (GetSettings dec w)) \<noteq> []"
    and "PushoverUser (fst (GetSettings dec w)) \<noteq> []"
  shows "nextRun (checkAndProcess dec enc pd port hook now wr w) =
       earliestNext (snd (forPending pd port now 0 (fst (GetPending dec (snd (GetSettings dec w))))
               \<lparr>earliestNext = 0, saveNeeded = False, sent = []\<rparr>))
     \<and> calls (checkAndProcess dec enc pd port hook now wr w) =
       sent (snd (forPending pd port now 0 (fst (GetPending dec (snd (GetSettings dec w))))
               \<lparr>earliestNext = 0, saveNeeded = False, sent = []\<rparr>))"
  using assms
  by (simp add: checkAndProcess_def split_def Let_def split: option.splits)

text \<open>
  C4, as stated, fails: a notification with three deliveries out of three that is still
  \<open>Pending\<close>, and whose next slot (10:30) has not come at 09:05, is pending before the
  pass and after it, and its slot is the instant the pass returns for the next wake.
\<close>

theorem C4_counterexample:
  "repeatTimes spentReminder \<le>s SendsCount spentReminder
   \<and> Notifications (Data (store worldSpent)) = [spentReminder]
   \<and> Notifications (Data (store (after
        (checkAndProcess decodeSample encodeSample parseSample portUp True t0905
           (Some t0905) worldSpent)))) = [spentReminder]
   \<and> Status spentReminder = StatusPending
   \<and> StatusPending \<noteq> StatusDone
   \<and> fst (GetPending decodeSample (after
        (checkAndProcess decodeSample encodeSample parseSample portUp True t0905
           (Some t0905) worldSpent))) = [spentReminder]
   \<and> nextRun (checkAndProcess decodeSample encodeSample parseSample portUp True t0905
           (Some t0905) worldSpent) = t0900 + 5400000000000"
  by (simp add: checkAndProcess_def GetSettings_def GetPending_def CheckDiskChanges_def
      Stat_def worldSpent_def spentReminder_def reminder_def credentials_def loopBody_def
      nextSendTime_def repeatInterval_def repeatTimes_def parseSample_def Truncate_def
      Add_def Minute_def Before_def IsZero_def t0900_def t0905_def StatusPending_def
      StatusDone_def word_sle_eq word_sless_alt Let_def)


text \<open>
  C4, amended. After a pass, a record that was pending and due in it and whose
  \<open>SendsCount\<close> has reached its effective repeat count is \<open>Done\<close>. Records that are
  \<open>Done\<close> are left as they are, are not among the pending ones, and the instant returned
  for the next wake and the calls of the Delivery Port are those of the loop over the
  records that are not \<open>Done\<close>.
\<close>

theorem C4_done_once_found_due_and_spent:
  assumes creds: "PushoverToken (fst (GetSettings dec w)) \<noteq> []"
      "PushoverUser (fst (GetSettings dec w)) \<noteq> []"
    and ns: "ns = Notifications (Data (store (snd (GetPending dec (snd (GetSettings dec w))))))"
    and ns': "ns' = Notifications (Data (store (after
                      (checkAndProcess dec enc pd port hook now wr w))))"
    and j: "j < length ns"
  shows "(Status (ns ! j) \<noteq> StatusDone \<and> \<not> Before now (nextSendTime pd (ns ! j))
            \<and> repeatTimes (ns' ! j) \<le>s SendsCount (ns' ! j)
          \<longrightarrow> Status (ns' ! j) = StatusDone)
     \<and> (Status (ns ! j) = StatusDone \<longrightarrow> ns' ! j = ns ! j)
     \<and> (\<forall>n \<in> set (fst (GetPending dec (snd (GetSettings dec w)))). Status n \<noteq> StatusDone)
     \<and> nextRun (checkAndProcess dec enc pd port hook now wr w) =
         earliestNext (snd (forPending pd port now 0
            (filter (\<lambda>n. Status n \<noteq> StatusDone) ns)
            \<lparr>earliestNext = 0, saveNeeded = False, sent = []\<rparr>))
     \<and> calls (checkAndProcess dec enc pd port hook now wr w) =
         sent (snd (forPending pd port now 0
            (filter (\<lambda>n. Status n \<noteq> StatusDone) ns)
            \<lparr>earliestNext = 0, saveNeeded = False, sent = []\<rparr>))"
proof -
  have spent: "Status (ns' ! j) = StatusDone"
    if pend: "Status (ns ! j) \<noteq> StatusDone"
      and due: "\<not> Before now (nextSendTime pd (ns ! j))"
      and full: "repeatTimes (ns' ! j) \<le>s SendsCount (ns' ! j)"
  proof -
    have eq: "ns' ! j = fst (loopBody pd port now (pendingIndex ns j) (ns ! j)
        \<lparr>earliestNext = 0, saveNeeded = False, sent = []\<rparr>)"
      unfolding ns' using creds ns j pend by (rule checkAndProcess_nth_pending)
    from loopBody_due_spent [OF due] full show ?thesis
      unfolding eq by simp
  qed
  have kept: "ns' ! j = ns ! j" if "Status (ns ! j) = StatusDone"
    unfolding ns' using creds ns j that by (rule checkAndProcess_nth_done)
  have pending: "\<forall>n \<in> set (fst (GetPending dec (snd (GetSettings dec w)))). Status n \<noteq> StatusDone"
    by (simp add: GetPending_def Let_def)
  have flt: "fst (GetPending dec (snd (GetSettings dec w))) =
      filter (\<lambda>n. Status n \<noteq> StatusDone) ns"
    unfolding ns by (rule GetPending_fst)
  from spent kept pending checkAndProcess_nextRun [OF creds, of enc pd port hook now wr]
  show ?thesis
    unfolding flt by blast
qed


lemmas sample_defs =
  checkAndProcess_def GetSettings_def GetPending_def CheckDiskChanges_def Save_def
  Stat_def reminder_def credentials_def loopBody_def nextSendTime_def repeatInterval_def
  repeatTimes_def parseSample_def encodeSample_def portUp_def portDown_def Truncate_def
  Add_def Minute_def Before_def IsZero_def t0900_def t0905_def t1001_def StatusPending_def
  StatusDone_def word_sle_eq word_sless_alt Let_def

lemma pass_worldLast:
  "Notifications (Data (store (after
      (checkAndProcess decodeSample encodeSample parseSample portUp True t1001
         (Some t1001) worldLast)))) =
     [doneReminder, lastReminder\<lparr>SendsCount := 3, LastPushTime := t1001, Status := StatusDone\<rparr>]
   \<and> nextRun (checkAndProcess decodeSample encodeSample parseSample portUp True t1001
         (Some t1001) worldLast) = 0
   \<and> calls (checkAndProcess decodeSample encodeSample parseSample portUp True t1001
         (Some t1001) worldLast) = [(0, ''Review project proposal'')]"
  by (simp add: sample_defs worldLast_def doneReminder_def lastReminder_def)

theorem C4_done_once_found_due_and_spent_witness:
  "PushoverToken (fst (GetSettings decodeSample worldLast)) \<noteq> []
   \<and> PushoverUser (fst (GetSettings decodeSample worldLast)) \<noteq> []
   \<and> Notifications (Data (store (snd (GetPending decodeSample
         (snd (GetSettings decodeSample worldLast)))))) = [doneReminder, lastReminder]
   \<and> Status ([doneReminder, lastReminder] ! 1) \<noteq> StatusDone
   \<and> \<not> Before t1001 (nextSendTime parseSample ([doneReminder, lastReminder] ! 1))
   \<and> repeatTimes (Notifications (Data (store (after
         (checkAndProcess decodeSample encodeSample parseSample portUp True t1001
            (Some t1001) worldLast)))) ! 1)
       \<le>s SendsCount (Notifications (Data (store (after
         (checkAndProcess decodeSample encodeSample parseSample portUp True t1001
            (Some t1001) worldLast)))) ! 1)
   \<and> Status (Notifications (Data (store (after
         (checkAndProcess decodeSample encodeSample parseSample portUp True t1001
            (Some t1001) worldLast)))) ! 1) = StatusDone
   \<and> Status ([doneReminder, lastReminder] ! 0) = StatusDone
   \<and> Notifications (Data (store (after
         (checkAndProcess decodeSample encodeSample parseSample portUp True t1001
            (Some t1001) worldLast)))) ! 0 = doneReminder
   \<and> fst (GetPending decodeSample (snd (GetSettings decodeSample worldLast))) = [lastReminder]
   \<and> calls (checkAndProcess decodeSample encodeSample parseSample portUp True t1001
         (Some t1001) worldLast) = [(0, ''Review project proposal'')]"
proof -
  have h1: "PushoverToken (fst (GetSettings decodeSample worldLast)) \<noteq> []"
    and h2: "PushoverUser (fst (GetSettings decodeSample worldLast)) \<noteq> []"
    by (simp_all add: sample_defs worldLast_def)
  have h3: "[doneReminder, lastReminder] = Notifications (Data (store (snd (GetPending
      decodeSample (snd (GetSettings decodeSample worldLast))))))"
    by (simp add: sample_defs worldLast_def)
  have h4: "0 < length [doneReminder, lastReminder]" "1 < length [doneReminder, lastReminder]"
    by simp_all
  have p: "Status ([doneReminder, lastReminder] ! 1) \<noteq> StatusDone"
      "\<not> Before t1001 (nextSendTime parseSample ([doneReminder, lastReminder] ! 1))"
      "Status ([doneReminder, lastReminder] ! 0) = StatusDone"
      "fst (GetPending decodeSample (snd (GetSettings decodeSample worldLast))) = [lastReminder]"
    by (simp_all add: sample_defs worldLast_def doneReminder_def lastReminder_def)
  have q: "repeatTimes (lastReminder\<lparr>SendsCount := 3, LastPushTime := t1001, Status := StatusDone\<rparr>)
      \<le>s SendsCount (lastReminder\<lparr>SendsCount := 3, LastPushTime := t1001, Status := StatusDone\<rparr>)"
    by (simp add: sample_defs lastReminder_def)
  note inst = C4_done_once_found_due_and_spent [where dec = decodeSample and w = worldLast
      and ns = "[doneReminder, lastReminder]" and pd = parseSample and port = portUp
      and now = t1001 and enc = encodeSample and hook = True and wr = "Some t1001"]
  from inst [OF h1 h2 h3 refl h4(1)] inst [OF h1 h2 h3 refl h4(2)]
    h1 h2 h3 [symmetric] p q pass_worldLast
  show ?thesis
    by simp
qed

section \<open>Effective repeat count and interval\<close>

lemma CheckDiskChanges_quiet:
  assumes "\<forall>mt. Stat (disk w) = Some mt \<longrightarrow> \<not> After mt (lastLoadedTime (store w))"
  shows "CheckDiskChanges dec w = w"
  using assms by (simp add: CheckDiskChanges_def Let_def split: option.splits)

lemma pass_worldUnset:
  "Notifications (Data (store (after
        (checkAndProcess decodeSample encodeSample parseSample portUp True t1100
           (Some t1100) worldUnset)))) = [unsetReminder\<lparr>Status := StatusDone\<rparr>]
   \<and> calls (checkAndProcess decodeSample encodeSample parseSample portUp True t1100
           (Some t1100) worldUnset) = []"
  by (simp add: sample_defs worldUnset_def unsetReminder_def t1100_def)

text \<open>
  C7, as stated, fails. The settings hold the defaults 5 and \<open>1h\<close>; the notification
  has neither value set and has been delivered three times. The engine takes 3 and 30
  minutes: at 11:00 it finds the slot 10:30 due, makes no call and marks the notification
  \<open>Done\<close>. With the defaults of the settings the slot would be 12:00 and two deliveries
  would be left.
\<close>

theorem C7_counterexample:
  "DefaultRepeatTimes (fst (GetSettings decodeSample worldUnset)) = 5
   \<and> DefaultRepeatInterval (fst (GetSettings decodeSample worldUnset)) = ''1h''
   \<and> parseSample ''1h'' = Some 3600000000000
   \<and> RepeatTimes unsetReminder = 0
   \<and> RepeatInterval unsetReminder = []
   \<and> repeatTimes unsetReminder = 3
   \<and> repeatInterval parseSample unsetReminder = 1800000000000
   \<and> nextSendTime parseSample unsetReminder = t0900 + 5400000000000
   \<and> Notifications (Data (store (after
        (checkAndProcess decodeSample encodeSample parseSample portUp True t1100
           (Some t1100) worldUnset)))) = [unsetReminder\<lparr>Status := StatusDone\<rparr>]
   \<and> calls (checkAndProcess decodeSample encodeSample parseSample portUp True t1100
           (Some t1100) worldUnset) = []"
  by (simp add: sample_defs worldUnset_def unsetReminder_def t1100_def)

text \<open>
  C7, amended. The effective repeat count is the notification's own, or 3 when that is
  zero; the effective interval is the parsed \<open>RepeatInterval\<close>, or 30 minutes when it
  does not parse (the empty string does not). The defaults stored in the settings play no
  part: with no reload pending, a pass gives the same next wake, the same calls and the
  same notifications whatever the two default fields hold.
\<close>

theorem C7_builtin_defaults:
  assumes quiet: "\<forall>mt. Stat (disk w) = Some mt \<longrightarrow> \<not> After mt (lastLoadedTime (store w))"
    and w': "w' = w\<lparr>store := (store w)\<lparr>Data := (Data (store w))\<lparr>Settings :=
                 (Settings (Data (store w)))\<lparr>DefaultRepeatTimes := dt,
                                               DefaultRepeatInterval := di\<rparr>\<rparr>\<rparr>\<rparr>"
  shows "repeatTimes n = (if RepeatTimes n = 0 then 3 else RepeatTimes n)
     \<and> (pd (RepeatInterval n) = None \<longrightarrow> repeatInterval pd n = 1800000000000)
     \<and> (\<forall>d. pd (RepeatInterval n) = Some d \<longrightarrow> repeatInterval pd n = d)
     \<and> nextRun (checkAndProcess dec enc pd port hook now wr w') =
         nextRun (checkAndProcess dec enc pd port hook now wr w)
     \<and> calls (checkAndProcess dec enc pd port hook now wr w') =
         calls (checkAndProcess dec enc pd port hook now wr w)
     \<and> Notifications (Data (store (after (checkAndProcess dec enc pd port hook now wr w')))) =
         Notifications (Data (store (after (checkAndProcess dec enc pd port hook now wr w))))"
proof -
  have q: "CheckDiskChanges dec w = w"
    using quiet by (rule CheckDiskChanges_quiet)
  have q': "CheckDiskChanges dec w' = w'"
    using quiet by (intro CheckDiskChanges_quiet) (simp add: w')
  have t: "repeatTimes n = (if RepeatTimes n = 0 then 3 else RepeatTimes n)"
    by (simp add: repeatTimes_def)
  have i1: "pd (RepeatInterval n) = None \<longrightarrow> repeatInterval pd n = 1800000000000"
    by (simp add: repeatInterval_def Minute_def)
  have i2: "\<forall>d. pd (RepeatInterval n) = Some d \<longrightarrow> repeatInterval pd n = d"
    by (simp add: repeatInterval_def)
  have gs: "PushoverToken (fst (GetSettings dec w')) = PushoverToken (fst (GetSettings dec w))"
      "PushoverUser (fst (GetSettings dec w')) = PushoverUser (fst (GetSettings dec w))"
      "snd (GetSettings dec w') = w'" "snd (GetSettings dec w) = w"
    by (simp_all add: GetSettings_def q q') (simp_all add: w')
  have gp: "fst (GetPending dec w') = fst (GetPending dec w)"
      "Notifications (Data (store (snd (GetPending dec w')))) =
       Notifications (Data (store (snd (GetPending dec w))))"
    by (simp_all add: GetPending_def q q') (simp_all add: w')
  show ?thesis
  proof (cases "PushoverToken (fst (GetSettings dec w)) = [] \<or> PushoverUser (fst (GetSettings dec w)) = []")
    case True
    then have "nextRun (checkAndProcess dec enc pd port hook now wr w) = 0"
        "calls (checkAndProcess dec enc pd port hook now wr w) = []"
        "after (checkAndProcess dec enc pd port hook now wr w) = w"
      using gs(4) by (auto simp: checkAndProcess_def split_def)
    moreover from True have "nextRun (checkAndProcess dec enc pd port hook now wr w') = 0"
        "calls (checkAndProcess dec enc pd port hook now wr w') = []"
        "after (checkAndProcess dec enc pd port hook now wr w') = w'"
      using gs by (auto simp: checkAndProcess_def split_def)
    ultimately show ?thesis
      using t i1 i2 by (simp add: w')
  next
    case False
    then have c: "PushoverToken (fst (GetSettings dec w)) \<noteq> []"
        "PushoverUser (fst (GetSettings dec w)) \<noteq> []"
      by simp_all
    then have c': "PushoverToken (fst (GetSettings dec w')) \<noteq> []"
        "PushoverUser (fst (GetSettings dec w')) \<noteq> []"
      by (simp_all add: gs)
    from checkAndProcess_nextRun [OF c, of enc pd port hook now wr]
      checkAndProcess_nextRun [OF c', of enc pd port hook now wr]
      checkAndProcess_notifications [OF c, of enc pd port hook now wr]
      checkAndProcess_notifications [OF c', of enc pd port hook now wr]
      t i1 i2
    show ?thesis
      by (simp add: gs gp)
  qed
qed


theorem C7_builtin_defaults_witness:
  "Stat (disk worldUnset) = None
   \<and> parseSample (RepeatInterval unsetReminder) = None
   \<and> repeatInterval parseSample unsetReminder = 1800000000000
   \<and> RepeatTimes unsetReminder = 0
   \<and> repeatTimes unsetReminder = 3
   \<and> parseSample (RepeatInterval (reminder\<lparr>RepeatInterval := ''1h''\<rparr>)) = Some 3600000000000
   \<and> repeatInterval parseSample (reminder\<lparr>RepeatInterval := ''1h''\<rparr>) = 3600000000000
   \<and> Notifications (Data (store (after
        (checkAndProcess decodeSample encodeSample parseSample portUp True t1100 (Some t1100)
           (worldUnset\<lparr>store := (store worldUnset)\<lparr>Data := (Data (store worldUnset))
              \<lparr>Settings := (Settings (Data (store worldUnset)))
                 \<lparr>DefaultRepeatTimes := 3, DefaultRepeatInterval := ''30m''\<rparr>\<rparr>\<rparr>\<rparr>))))) =
       [unsetReminder\<lparr>Status := StatusDone\<rparr>]
   \<and> calls (checkAndProcess decodeSample encodeSample parseSample portUp True t1100 (Some t1100)
           (worldUnset\<lparr>store := (store worldUnset)\<lparr>Data := (Data (store worldUnset))
              \<lparr>Settings := (Settings (Data (store worldUnset)))
                 \<lparr>DefaultRepeatTimes := 3, DefaultRepeatInterval := ''30m''\<rparr>\<rparr>\<rparr>\<rparr>)) = []"
proof -
  have st: "Stat (disk worldUnset) = None"
    by (simp add: worldUnset_def Stat_def)
  then have quiet: "\<forall>mt. Stat (disk worldUnset) = Some mt \<longrightarrow>
      \<not> After mt (lastLoadedTime (store worldUnset))"
    by simp
  have p: "parseSample (RepeatInterval unsetReminder) = None"
      "RepeatTimes unsetReminder = 0"
      "parseSample (RepeatInterval (reminder\<lparr>RepeatInterval := ''1h''\<rparr>)) = Some 3600000000000"
    by (simp_all add: parseSample_def unsetReminder_def reminder_def)
  note inst = C7_builtin_defaults [where w = worldUnset and dt = 3 and di = "''30m''"
      and pd = parseSample and dec = decodeSample and enc = encodeSample and port = portUp
      and hook = True and now = t1100 and wr = "Some t1100", OF quiet refl]
  from inst [of unsetReminder] inst [of "reminder\<lparr>RepeatInterval := ''1h''\<rparr>"] st p
    pass_worldUnset
  show ?thesis
    by simp
qed

section \<open>Load\<close>

lemma docs_distinct:
  "legacyDoc \<noteq> schemaDoc" "brokenDoc \<noteq> schemaDoc" "brokenDoc \<noteq> legacyDoc"
  "legacyDoc \<noteq> []" "schemaDoc \<noteq> []" "brokenDoc \<noteq> []"
  by (simp_all add: legacyDoc_def schemaDoc_def brokenDoc_def)

lemma migrate_backfills:
  "n \<in> set (Notifications (migrate (setDefaults d))) \<Longrightarrow>
     RepeatTimes n \<noteq> 0 \<and> RepeatInterval n \<noteq> []"
  by (auto simp: migrate_def setDefaults_def Let_def split: if_splits)

lemma Load_current_format_backfills:
  assumes "Load dec f s = (None, s')" and "ReadFile f = Inr data" and "data \<noteq> []"
    and "UnmarshalSchema dec data (Data (case Stat f of Some mt \<Rightarrow> s\<lparr>lastLoadedTime := mt\<rparr> | None \<Rightarrow> s)) = Inr d"
    and "n \<in> set (Notifications (Data s'))"
  shows "RepeatTimes n \<noteq> 0 \<and> RepeatInterval n \<noteq> []"
proof -
  from assms(1-4) have "Data s' = migrate (setDefaults d)"
    by (auto simp: Load_def Let_def)
  with assms(5) show ?thesis
    by (simp add: migrate_backfills)
qed

text \<open>
  C5. A file in the legacy format, a bare list whose notification has no repeat count
  and no interval: \<open>Load\<close> succeeds through the fallback parse and returns at once, so
  the notification it leaves in the store has \<open>RepeatTimes = 0\<close> and an empty
  \<open>RepeatInterval\<close>. (A load in the current format does backfill, see
  \<open>Load_current_format_backfills\<close>.)
\<close>

theorem C5_legacy_load_skips_backfill:
  "Load decodeSample (File t0905 legacyDoc) NewStore =
     (None, \<lparr>Data = \<lparr>Settings = defaultSettings, Notifications = [legacyReminder]\<rparr>,
             lastLoadedTime = t0905\<rparr>)
   \<and> RepeatTimes legacyReminder = 0
   \<and> RepeatInterval legacyReminder = []"
  by (simp add: Load_def Stat_def ReadFile_def decodeSample_def docs_distinct NewStore_def
      legacyReminder_def)

text \<open>
  C8. \<open>Load\<close> on a missing file and on an empty file returns no error and leaves an
  empty list with the default settings, whose repeat count is 3 and interval \<open>30m\<close>. On
  contents that do not decode as a schema but decode as a bare list it returns no error
  and leaves that list with the default settings. For a file that was read, it returns an
  error exactly when the contents are not empty and both decodings fail, and the error is
  then the unmarshalling one. (The one other error is that of a file that cannot be read.)
\<close>

theorem C8_load_outcomes:
  "Load dec NoFile s = (None, s\<lparr>Data := \<lparr>Settings = defaultSettings, Notifications = []\<rparr>\<rparr>)
   \<and> Load dec (File mt []) s =
       (None, s\<lparr>lastLoadedTime := mt,
                Data := \<lparr>Settings = defaultSettings, Notifications = []\<rparr>\<rparr>)
   \<and> DefaultRepeatTimes defaultSettings = 3
   \<and> DefaultRepeatInterval defaultSettings = ''30m''
   \<and> (data \<noteq> [] \<and> isl (UnmarshalSchema dec data (Data s))
          \<and> UnmarshalList dec data = Some oldNotifs \<longrightarrow>
        Load dec (File mt data) s =
          (None, s\<lparr>lastLoadedTime := mt,
                   Data := \<lparr>Settings = defaultSettings, Notifications = oldNotifs\<rparr>\<rparr>))
   \<and> (fst (Load dec (File mt data) s) \<noteq> None \<longleftrightarrow>
        data \<noteq> [] \<and> isl (UnmarshalSchema dec data (Data s)) \<and> UnmarshalList dec data = None)
   \<and> (fst (Load dec (File mt data) s) \<noteq> None \<longrightarrow>
        fst (Load dec (File mt data) s) = Some UnmarshalFailed)
   \<and> Load dec (Unreadable mt) s = (Some ReadFailed, s\<lparr>lastLoadedTime := mt\<rparr>)"
proof -
  have missing: "Load dec NoFile s =
      (None, s\<lparr>Data := \<lparr>Settings = defaultSettings, Notifications = []\<rparr>\<rparr>)"
    by (simp add: Load_def Stat_def ReadFile_def)
  have empty: "Load dec (File mt []) s =
      (None, s\<lparr>lastLoadedTime := mt,
               Data := \<lparr>Settings = defaultSettings, Notifications = []\<rparr>\<rparr>)"
    by (simp add: Load_def Stat_def ReadFile_def)
  have dflt: "DefaultRepeatTimes defaultSettings = 3"
      "DefaultRepeatInterval defaultSettings = ''30m''"
    by (simp_all add: defaultSettings_def)
  have legacy: "Load dec (File mt data) s =
      (None, s\<lparr>lastLoadedTime := mt,
               Data := \<lparr>Settings = defaultSettings, Notifications = oldNotifs\<rparr>\<rparr>)"
    if "data \<noteq> []" "isl (UnmarshalSchema dec data (Data s))"
      "UnmarshalList dec data = Some oldNotifs"
    using that by (auto simp: Load_def Stat_def ReadFile_def isl_def Let_def)
  have err: "fst (Load dec (File mt data) s) \<noteq> None \<longleftrightarrow>
      data \<noteq> [] \<and> isl (UnmarshalSchema dec data (Data s)) \<and> UnmarshalList dec data = None"
    by (auto simp: Load_def Stat_def ReadFile_def isl_def Let_def split: sum.splits option.splits)
  have which: "fst (Load dec (File mt data) s) = Some UnmarshalFailed"
    if "fst (Load dec (File mt data) s) \<noteq> None"
    using that
    by (auto simp: Load_def Stat_def ReadFile_def Let_def split: sum.splits option.splits if_splits)
  have unreadable: "Load dec (Unreadable mt) s = (Some ReadFailed, s\<lparr>lastLoadedTime := mt\<rparr>)"
    by (simp add: Load_def Stat_def ReadFile_def)
  from missing empty dflt legacy err which unreadable show ?thesis
    by blast
qed

theorem C8_load_outcomes_witness:
  "legacyDoc \<noteq> []
   \<and> isl (UnmarshalSchema decodeSample legacyDoc (Data NewStore))
   \<and> UnmarshalList decodeSample legacyDoc = Some [legacyReminder]
   \<and> Load decodeSample (File t0905 legacyDoc) NewStore =
       (None, NewStore\<lparr>lastLoadedTime := t0905,
                Data := \<lparr>Settings = defaultSettings, Notifications = [legacyReminder]\<rparr>\<rparr>)
   \<and> brokenDoc \<noteq> []
   \<and> isl (UnmarshalSchema decodeSample brokenDoc (Data NewStore))
   \<and> UnmarshalList decodeSample brokenDoc = None
   \<and> fst (Load decodeSample (File t0905 brokenDoc) NewStore) = Some UnmarshalFailed"
proof -
  have l: "legacyDoc \<noteq> []" "isl (UnmarshalSchema decodeSample legacyDoc (Data NewStore))"
      "UnmarshalList decodeSample legacyDoc = Some [legacyReminder]"
    by (simp_all add: decodeSample_def docs_distinct)
  have b: "brokenDoc \<noteq> []" "isl (UnmarshalSchema decodeSample brokenDoc (Data NewStore))"
      "UnmarshalList decodeSample brokenDoc = None"
    by (simp_all add: decodeSample_def docs_distinct)
  from C8_load_outcomes [of decodeSample NewStore t0905 legacyDoc "[legacyReminder]"]
    C8_load_outcomes [of decodeSample NewStore t0905 brokenDoc "[]"] l b
  show ?thesis
    by simp
qed

section \<open>Read accessors\<close>

text \<open>
  C6. The file is newer than the last load and holds the notification \<open>a\<close>. The three
  accessors that call \<open>CheckDiskChanges\<close> reload and return it (or the settings of the
  file); \<open>GetNotification\<close>, which does not, answers from the stale state that \<open>a\<close> is
  not found, and finds it only once another accessor has reloaded.
\<close>

theorem C6_GetNotification_reads_stale_state:
  "fst (GetAllNotifications decodeSample worldStale) = [reminder]
   \<and> fst (GetPending decodeSample worldStale) = [reminder]
   \<and> fst (GetSettings decodeSample worldStale) = credentials
   \<and> ID reminder = ''a''
   \<and> GetNotification ''a'' worldStale = Inl NotFound
   \<and> GetNotification ''a'' (snd (GetAllNotifications decodeSample worldStale)) = Inr reminder"
  by (simp add: GetAllNotifications_def GetPending_def GetSettings_def GetNotification_def
      CheckDiskChanges_def Load_def Stat_def ReadFile_def After_def worldStale_def
      decodeSample_def docs_distinct migrate_def setDefaults_def credentials_def
      reminder_def t0900_def StatusPending_def StatusDone_def Let_def)

section \<open>Mutators on an absent id\<close>

lemma updateLoop_absent:
  "ID updated \<notin> ID ` set ns \<Longrightarrow> updateLoop updated ns = (False, ns)"
  by (induction ns) auto

lemma deleteLoop_absent:
  "ident \<notin> ID ` set ns \<Longrightarrow> deleteLoop ident ns = (False, ns)"
  by (induction ns) auto

text \<open>
  C10. For an id that no notification of the store has, \<open>UpdateNotification\<close> and
  \<open>DeleteNotification\<close> return the not-found error and leave the store and the file
  exactly as they were, whatever the encoder and the file system would have done in a
  \<open>Save\<close>: the list is not changed and \<open>Save\<close> is not reached.
\<close>

theorem C10_absent_id_leaves_store_and_file:
  assumes "ident \<notin> ID ` set (Notifications (Data (store w)))" and "ID updated = ident"
  shows "UpdateNotification enc wr updated w = (Some NotFound, w)
     \<and> DeleteNotification enc wr ident w = (Some NotFound, w)"
  using assms
  by (simp add: UpdateNotification_def DeleteNotification_def updateLoop_absent
      deleteLoop_absent)

theorem C10_absent_id_leaves_store_and_file_witness:
  "''zzz'' \<notin> ID ` set (Notifications (Data (store world0)))
   \<and> ID (reminder\<lparr>ID := ''zzz''\<rparr>) = ''zzz''
   \<and> UpdateNotification encodeSample (Some t0905) (reminder\<lparr>ID := ''zzz''\<rparr>) world0 =
       (Some NotFound, world0)
   \<and> DeleteNotification encodeSample (Some t0905) ''zzz'' world0 = (Some NotFound, world0)
   \<and> fst (DeleteNotification encodeSample (Some t0905) ''a'' world0) = None
   \<and> disk (snd (DeleteNotification encodeSample (Some t0905) ''a'' world0)) = File t0905 ''{}''"
proof -
  have h: "''zzz'' \<notin> ID ` set (Notifications (Data (store world0)))"
    by (simp add: world0_def reminder_def)
  have i: "ID (reminder\<lparr>ID := ''zzz''\<rparr>) = ''zzz''"
    by simp
  have d: "fst (DeleteNotification encodeSample (Some t0905) ''a'' world0) = None"
      "disk (snd (DeleteNotification encodeSample (Some t0905) ''a'' world0)) = File t0905 ''{}''"
    by (simp_all add: DeleteNotification_def world0_def reminder_def Save_def encodeSample_def)
  from C10_absent_id_leaves_store_and_file [OF h i, of encodeSample "Some t0905"] h i d
  show ?thesis
    by simp
qed

section \<open>Refresh\<close>

lemma Refresh_fills: "c \<le> chanCap \<Longrightarrow> Refresh c = chanCap"
  by (auto simp: Refresh_def chanSend_def chanCap_def)

lemma Refresh_funpow: "c \<le> chanCap \<Longrightarrow> (Refresh ^^ Suc k) c = chanCap"
proof (induction k)
  case 0
  then show ?case by (simp add: Refresh_fills)
next
  case (Suc k)
  then have "(Refresh ^^ Suc k) c = chanCap" by simp
  then have "(Refresh ^^ Suc (Suc k)) c = Refresh chanCap" by simp
  then show ?case by (simp add: Refresh_fills)
qed

text \<open>
  C9. Whatever the buffer of \<open>updateChan\<close> holds, after \<open>N > 0\<close> calls of \<open>Refresh\<close>
  with no receive in between it holds exactly one signal: the loop's receive takes it, for
  one more round, and leaves the buffer empty, where the next receive blocks. On a full
  buffer a bare send would block, and \<open>Refresh\<close> returns with the buffer as it was.
\<close>

theorem C9_refresh_coalesces:
  assumes "c \<le> chanCap" and "0 < N"
  shows "(Refresh ^^ N) c = 1
     \<and> wakeups ((Refresh ^^ N) c) = 1
     \<and> chanRecv ((Refresh ^^ N) c) = Some 0
     \<and> chanRecv 0 = None
     \<and> chanSend 1 = None
     \<and> Refresh 1 = 1"
proof -
  from assms(2) obtain k where N: "N = Suc k"
    by (cases N) simp_all
  have "(Refresh ^^ N) c = 1"
    unfolding N using Refresh_funpow [OF assms(1)] by (simp add: chanCap_def)
  then show ?thesis
    by (simp add: chanRecv_def chanSend_def Refresh_def chanCap_def)
qed

theorem C9_refresh_coalesces_witness:
  "(0::nat) \<le> chanCap \<and> (0::nat) < 5
   \<and> (Refresh ^^ 5) 0 = 1 \<and> wakeups ((Refresh ^^ 5) 0) = 1
   \<and> chanRecv ((Refresh ^^ 5) 0) = Some 0"
proof -
  have h1: "(0::nat) \<le> chanCap"
    by simp
  have h2: "(0::nat) < 5"
    by simp
  from C9_refresh_coalesces [OF h1 h2] h1 h2 show ?thesis
    by blast
qed

end
